theory Spec2Isabelle
  imports Main
begin

section \<open>JavaScript values and exceptions\<close>

text \<open>
  The item registry of \<^verbatim>\<open>src/common/ItemRegistry.js\<close> passes names, icons and
  parameters around without looking at them. A JavaScript value that can stand where the
  code expects a string is \<^verbatim>\<open>undefined\<close>, \<^verbatim>\<open>null\<close> or a string.
  The \<^verbatim>\<open>maxNum\<close> parameter of the two counted submenus is an integer-valued number
  and is modelled as \<open>int\<close>.
\<close>

datatype jsval = JUndefined | JNull | JStr string

text \<open>
  An exception is either the \<^verbatim>\<open>TypeError\<close> the language raises when a property of
  \<^verbatim>\<open>undefined\<close> or \<^verbatim>\<open>null\<close> is read, or an error thrown by the host
  (a \<^verbatim>\<open>GLib.Error\<close>), carried with its message.
\<close>

datatype jserror = TypeError | HostError string



text \<open>
  \<^verbatim>\<open>xs.slice(0, end)\<close> for an integer \<open>end\<close>: a negative \<open>end\<close> counts from
  the end of the array, and the bounds are clamped to the array.
\<close>

definition slice0 :: "'a list \<Rightarrow> int \<Rightarrow> 'a list" where
  "slice0 xs end = (if end < 0 then take (nat (int (length xs) + end)) xs else take (nat end) xs)"

section \<open>Host objects\<close>

text \<open>
  The host platform (GLib, Gio, Gtk, GMenu, Shell) is not part of the repository. Each
  host object is a record of what its methods return.
  \<^item> An icon is nullable (\<open>option\<close>) wherever the host hands one out:
    \<^verbatim>\<open>get_icon()\<close> of an application (tested at line 351), of a file info and of
    a menu directory, and \<^verbatim>\<open>get_gicon()\<close> of a recent file. So are an element of
    the list of most used applications (line 290) and the result of
    \<^verbatim>\<open>lookup_app\<close> (line 318).
  \<^item> A call may throw (\<open>jserror option\<close>, \<open>jserror + 'a\<close>) where the host
    reports an error by an exception: \<^verbatim>\<open>query_info\<close>,
    \<^verbatim>\<open>create_app_launch_context\<close>, \<^verbatim>\<open>create_from_commandline\<close>,
    \<^verbatim>\<open>launch\<close>, \<^verbatim>\<open>launch_default_for_uri\<close>, \<^verbatim>\<open>load_sync\<close>, and
    \<^verbatim>\<open>new_for_path\<close> (which refuses a null path); and where it is the one call
    of an \<^verbatim>\<open>activate\<close> closure (\<^verbatim>\<open>activateAccelerator\<close>,
    \<^verbatim>\<open>window.activate\<close>, \<^verbatim>\<open>open_new_window\<close>).
  \<^item> \<^verbatim>\<open>get_user_special_dir\<close> answers null for a directory that is not
    configured.
  \<^item> The calls that only read a collection or a string (\<^verbatim>\<open>get_home_dir\<close>,
    \<^verbatim>\<open>get_running\<close>, \<^verbatim>\<open>get_windows\<close>, \<^verbatim>\<open>get_items\<close>,
    \<^verbatim>\<open>get_most_used\<close>, \<^verbatim>\<open>get_strv\<close>, \<^verbatim>\<open>get_root_directory\<close>, the getters
    of names, titles and URIs) return.
  Reading a property of \<^verbatim>\<open>null\<close> or \<^verbatim>\<open>undefined\<close> raises
  \<^verbatim>\<open>TypeError\<close>.
\<close>

datatype gicon = GIcon (to_string: jsval)

record appinfo =
  appinfo_get_name :: jsval
  appinfo_get_icon :: "gicon option"
  appinfo_launch :: "jserror option"

record window =
  get_title :: jsval
  window_activate :: "jserror option"

record shellapp =
  app_get_name :: jsval
  app_get_app_info :: appinfo
  app_get_windows :: "window list"
  app_open_new_window :: "jserror option"

record recentinfo =
  recent_exists :: bool
  recent_get_display_name :: jsval
  recent_get_gicon :: "gicon option"
  recent_get_uri :: jsval

record fileinfo =
  info_get_display_name :: jsval
  info_get_icon :: "gicon option"

text \<open>
  A \<^verbatim>\<open>Gio.File\<close>. The source calls \<^verbatim>\<open>query_info\<close> with two attribute strings,
  \<^verbatim>\<open>'standard::display-name'\<close> and \<^verbatim>\<open>'standard::icon'\<close>; there is one field for
  each of the two calls.
\<close>

record gfile =
  query_info_display_name :: "jserror + fileinfo"
  query_info_icon :: "jserror + fileinfo"
  get_basename :: jsval
  file_get_uri :: jsval

datatype UserDirectory =
  DIRECTORY_DESKTOP | DIRECTORY_DOCUMENTS | DIRECTORY_DOWNLOAD | DIRECTORY_MUSIC
  | DIRECTORY_PICTURES | DIRECTORY_TEMPLATES | DIRECTORY_PUBLIC_SHARE | DIRECTORY_VIDEOS

text \<open>
  A node of the application-menu tree, named by what \<^verbatim>\<open>iter.next()\<close> answers for it.
  A directory carries its name, its icon and the nodes its own iterator yields; the
  iterator answers \<^verbatim>\<open>INVALID\<close> at the end of the list.
\<close>

datatype treeitem =
  ENTRY appinfo
  | DIRECTORY jsval "gicon option" "treeitem list"
  | SEPARATOR
  | HEADER
  | ALIAS

text \<open>
  \<^verbatim>\<open>Shell\<close> and \<^verbatim>\<open>InputManipulator\<close> are imported optionally (lines 22 to 30 of the
  source): either may stay \<^verbatim>\<open>undefined\<close>.
\<close>

record shell =
  get_running :: "shellapp list"
  get_most_used :: "shellapp option list"
  lookup_app :: "string \<Rightarrow> shellapp option"

record host =
  Shell :: "shell option"
  InputManipulator :: "(jsval \<Rightarrow> jserror option) option"
  create_app_launch_context :: "jserror option"
  create_from_commandline :: "jsval \<Rightarrow> jserror + appinfo"
  launch_default_for_uri :: "jsval \<Rightarrow> jserror option"
  this_name :: jsval
  get_home_dir :: jsval
  get_user_special_dir :: "UserDirectory \<Rightarrow> jsval"
  new_for_path :: "jsval \<Rightarrow> jserror + gfile"
  recent_get_items :: "recentinfo list"
  favorite_apps :: "string list"
  load_sync :: "jserror option"
  get_root_directory :: "treeitem list"

section \<open>Menu items\<close>

text \<open>
  The closure stored in the \<^verbatim>\<open>activate\<close> field of a leaf, with the values it has
  captured. One constructor for each closure of the source.
\<close>

datatype action =
  Hotkey_activate jsval
  | Command_activate jsval
  | Url_activate jsval
  | File_activate jsval
  | Bookmarks_activate gfile
  | RunningApps_activate window
  | RecentFiles_activate recentinfo
  | FrequentlyUsed_activate shellapp
  | Favorites_activate shellapp
  | MainMenu_activate appinfo

text \<open>
  An object literal of the source has the fields \<^verbatim>\<open>name\<close> and \<^verbatim>\<open>icon\<close> and may
  have \<^verbatim>\<open>activate\<close> and \<^verbatim>\<open>items\<close>; an absent field is \<open>None\<close>.
\<close>

datatype menuitem =
  MenuItem (item_name: jsval) (item_icon: jsval) (activate: "action option") (items: "menuitem list option")

definition children :: "menuitem \<Rightarrow> menuitem list" where
  "children m = (case items m of Some xs \<Rightarrow> xs | None \<Rightarrow> [])"

section \<open>The action item types\<close>

text \<open>
  \<^verbatim>\<open>createItem\<close> of \<^verbatim>\<open>Hotkey\<close>, \<^verbatim>\<open>Command\<close>, \<^verbatim>\<open>Url\<close> and \<^verbatim>\<open>File\<close>
  (lines 68, 87, 113, 136) returns an object literal and calls nothing.
\<close>

definition Hotkey_createItem :: "host \<Rightarrow> jsval \<Rightarrow> jsval \<Rightarrow> jsval \<Rightarrow> jserror + menuitem" where
  "Hotkey_createItem h name icon hotkey =
     Inr (MenuItem name icon (Some (Hotkey_activate hotkey)) None)"

definition Command_createItem :: "host \<Rightarrow> jsval \<Rightarrow> jsval \<Rightarrow> jsval \<Rightarrow> jserror + menuitem" where
  "Command_createItem h name icon command =
     Inr (MenuItem name icon (Some (Command_activate command)) None)"

definition Url_createItem :: "host \<Rightarrow> jsval \<Rightarrow> jsval \<Rightarrow> jsval \<Rightarrow> jserror + menuitem" where
  "Url_createItem h name icon url =
     Inr (MenuItem name icon (Some (Url_activate url)) None)"

definition File_createItem :: "host \<Rightarrow> jsval \<Rightarrow> jsval \<Rightarrow> jsval \<Rightarrow> jserror + menuitem" where
  "File_createItem h name icon file =
     Inr (MenuItem name icon (Some (File_activate file)) None)"

section \<open>Bookmarks\<close>

text \<open>
  \<^verbatim>\<open>pushFile(menu, file)\<close> (lines 164 to 193) appends to \<^verbatim>\<open>menu.items\<close>; the
  model passes that array in and returns it extended. Each of the two lookups has its own
  \<^verbatim>\<open>try\<close>: whatever is thrown inside, also the \<^verbatim>\<open>TypeError\<close> of
  \<^verbatim>\<open>info.get_icon().to_string()\<close> on a null icon, selects the fallback.
\<close>

definition pushFile :: "menuitem list \<Rightarrow> gfile \<Rightarrow> menuitem list" where
  "pushFile menu_items file =
     (let name = (case query_info_display_name file of
                    Inr info \<Rightarrow> info_get_display_name info
                  | Inl e \<Rightarrow> get_basename file);
          icon = (case query_info_icon file of
                    Inr info \<Rightarrow> (case info_get_icon info of
                                   Some gi \<Rightarrow> to_string gi
                                 | None \<Rightarrow> JStr ''missing-image'')
                  | Inl e \<Rightarrow> JStr ''missing-image'')
      in menu_items @ [MenuItem name icon (Some (Bookmarks_activate file)) None])"

definition DEFAULT_DIRECTORIES :: "UserDirectory list" where
  "DEFAULT_DIRECTORIES =
     [DIRECTORY_DESKTOP, DIRECTORY_DOCUMENTS, DIRECTORY_DOWNLOAD, DIRECTORY_MUSIC,
      DIRECTORY_PICTURES, DIRECTORY_TEMPLATES, DIRECTORY_PUBLIC_SHARE, DIRECTORY_VIDEOS]"

text \<open>
  The \<^verbatim>\<open>for\<close> loop of lines 206 to 209, with its counter \<open>i\<close>.
  \<^verbatim>\<open>Gio.File.new_for_path(path)\<close> is evaluated before \<^verbatim>\<open>pushFile\<close> is
  called, outside any \<^verbatim>\<open>try\<close>: what it throws ends the loop.
\<close>

function Bookmarks_loop :: "host \<Rightarrow> nat \<Rightarrow> menuitem list \<Rightarrow> jserror + menuitem list" where
  "Bookmarks_loop h i result_items =
     (if i < length DEFAULT_DIRECTORIES
      then let path = get_user_special_dir h (DEFAULT_DIRECTORIES ! i)
           in (case new_for_path h path of
                 Inl e \<Rightarrow> Inl e
               | Inr file \<Rightarrow> Bookmarks_loop h (Suc i) (pushFile result_items file))
      else Inr result_items)"
  by pat_completeness auto
termination
  by (relation "measure (\<lambda>(h, i, result_items). length DEFAULT_DIRECTORIES - i)") auto

declare Bookmarks_loop.simps [simp del]

definition Bookmarks_createItem :: "host \<Rightarrow> jsval \<Rightarrow> jsval \<Rightarrow> jserror + menuitem" where
  "Bookmarks_createItem h name icon =
     (case new_for_path h (get_home_dir h) of
        Inl e \<Rightarrow> Inl e
      | Inr file \<Rightarrow>
          (case Bookmarks_loop h 0 (pushFile [] file) of
             Inl e \<Rightarrow> Inl e
           | Inr result_items \<Rightarrow> Inr (MenuItem name icon None (Some result_items))))"

section \<open>RunningApps\<close>

text \<open>The \<^verbatim>\<open>windows.forEach\<close> of lines 230 to 236.\<close>

fun RunningApps_forEach :: "menuitem list \<Rightarrow> jsval \<Rightarrow> window list \<Rightarrow> menuitem list" where
  "RunningApps_forEach result_items icon [] = result_items"
| "RunningApps_forEach result_items icon (window # windows) =
     RunningApps_forEach
       (result_items @ [MenuItem (get_title window) icon (Some (RunningApps_activate window)) None])
       icon windows"

text \<open>
  The \<^verbatim>\<open>for\<close> loop of lines 227 to 237. \<^verbatim>\<open>get_icon()\<close> of an application is
  null for an application without an icon (the source tests it at line 351); here
  \<^verbatim>\<open>to_string\<close> is called on it unguarded.
\<close>

function RunningApps_loop :: "shellapp list \<Rightarrow> nat \<Rightarrow> menuitem list \<Rightarrow> jserror + menuitem list" where
  "RunningApps_loop apps i result_items =
     (if i < length apps
      then let windows = app_get_windows (apps ! i)
           in (case appinfo_get_icon (app_get_app_info (apps ! i)) of
                 None \<Rightarrow> Inl TypeError
               | Some gi \<Rightarrow>
                   RunningApps_loop apps (Suc i)
                     (RunningApps_forEach result_items (to_string gi) windows))
      else Inr result_items)"
  by pat_completeness auto
termination
  by (relation "measure (\<lambda>(apps, i, result_items). length apps - i)") auto

declare RunningApps_loop.simps [simp del]

definition RunningApps_createItem :: "host \<Rightarrow> jsval \<Rightarrow> jsval \<Rightarrow> jserror + menuitem" where
  "RunningApps_createItem h name icon =
     (case Shell h of
        None \<Rightarrow> Inl TypeError
      | Some sh \<Rightarrow>
          (case RunningApps_loop (get_running sh) 0 [] of
             Inl e \<Rightarrow> Inl e
           | Inr result_items \<Rightarrow> Inr (MenuItem name icon None (Some result_items))))"

section \<open>RecentFiles\<close>

text \<open>
  The \<^verbatim>\<open>recentFiles.forEach\<close> of lines 255 to 271.
  \<^verbatim>\<open>recentFile.get_gicon().to_string()\<close> is unguarded: a null icon raises
  \<^verbatim>\<open>TypeError\<close>.
\<close>

fun RecentFiles_forEach :: "menuitem list \<Rightarrow> recentinfo list \<Rightarrow> jserror + menuitem list" where
  "RecentFiles_forEach result_items [] = Inr result_items"
| "RecentFiles_forEach result_items (recentFile # recentFiles) =
     (if recent_exists recentFile
      then (case recent_get_gicon recentFile of
              None \<Rightarrow> Inl TypeError
            | Some gi \<Rightarrow>
                RecentFiles_forEach
                  (result_items @
                     [MenuItem (recent_get_display_name recentFile) (to_string gi)
                        (Some (RecentFiles_activate recentFile)) None])
                  recentFiles)
      else RecentFiles_forEach result_items recentFiles)"

definition RecentFiles_createItem :: "host \<Rightarrow> jsval \<Rightarrow> jsval \<Rightarrow> int \<Rightarrow> jserror + menuitem" where
  "RecentFiles_createItem h name icon maxNum =
     (let recentFiles = slice0 (recent_get_items h) maxNum
      in case RecentFiles_forEach [] recentFiles of
           Inl e \<Rightarrow> Inl e
         | Inr result_items \<Rightarrow> Inr (MenuItem name icon None (Some result_items)))"

section \<open>FrequentlyUsed and Favorites\<close>

text \<open>
  The \<^verbatim>\<open>apps.forEach\<close> of lines 289 to 297. An element of the host's list may be
  null (\<^verbatim>\<open>if (app)\<close>).
\<close>

fun FrequentlyUsed_forEach :: "menuitem list \<Rightarrow> shellapp option list \<Rightarrow> jserror + menuitem list" where
  "FrequentlyUsed_forEach result_items [] = Inr result_items"
| "FrequentlyUsed_forEach result_items (None # apps) = FrequentlyUsed_forEach result_items apps"
| "FrequentlyUsed_forEach result_items (Some app # apps) =
     (case appinfo_get_icon (app_get_app_info app) of
        None \<Rightarrow> Inl TypeError
      | Some gi \<Rightarrow>
          FrequentlyUsed_forEach
            (result_items @
               [MenuItem (app_get_name app) (to_string gi) (Some (FrequentlyUsed_activate app)) None])
            apps)"

definition FrequentlyUsed_createItem :: "host \<Rightarrow> jsval \<Rightarrow> jsval \<Rightarrow> int \<Rightarrow> jserror + menuitem" where
  "FrequentlyUsed_createItem h name icon maxNum =
     (case Shell h of
        None \<Rightarrow> Inl TypeError
      | Some sh \<Rightarrow>
          (let apps = slice0 (get_most_used sh) maxNum
           in case FrequentlyUsed_forEach [] apps of
                Inl e \<Rightarrow> Inl e
              | Inr result_items \<Rightarrow> Inr (MenuItem name icon None (Some result_items))))"

text \<open>
  The \<^verbatim>\<open>appNames.forEach\<close> of lines 315 to 325. \<^verbatim>\<open>Shell\<close> is read inside the
  callback, once for each name.
\<close>

fun Favorites_forEach :: "host \<Rightarrow> menuitem list \<Rightarrow> string list \<Rightarrow> jserror + menuitem list" where
  "Favorites_forEach h result_items [] = Inr result_items"
| "Favorites_forEach h result_items (appName # appNames) =
     (case Shell h of
        None \<Rightarrow> Inl TypeError
      | Some sh \<Rightarrow>
          (case lookup_app sh appName of
             None \<Rightarrow> Favorites_forEach h result_items appNames
           | Some app \<Rightarrow>
               (case appinfo_get_icon (app_get_app_info app) of
                  None \<Rightarrow> Inl TypeError
                | Some gi \<Rightarrow>
                    Favorites_forEach h
                      (result_items @
                         [MenuItem (app_get_name app) (to_string gi)
                            (Some (Favorites_activate app)) None])
                      appNames)))"

definition Favorites_createItem :: "host \<Rightarrow> jsval \<Rightarrow> jsval \<Rightarrow> jserror + menuitem" where
  "Favorites_createItem h name icon =
     (let appNames = favorite_apps h
      in case Favorites_forEach h [] appNames of
           Inl e \<Rightarrow> Inl e
         | Inr result_items \<Rightarrow> Inr (MenuItem name icon None (Some result_items)))"

section \<open>MainMenu\<close>

text \<open>
  \<^verbatim>\<open>pushMenuItems(menu, dir)\<close> (lines 341 to 388). The first argument is the array
  \<^verbatim>\<open>menu.items\<close>, the second the nodes that \<^verbatim>\<open>dir.iter()\<close> yields. The
  icon of an application is tested before \<^verbatim>\<open>to_string\<close> is called on it (line
  351); the icon of a directory is not (line 375), and a null icon raises
  \<^verbatim>\<open>TypeError\<close> there. The last equation is the \<^verbatim>\<open>default\<close> branch of the
  \<^verbatim>\<open>switch\<close>.
\<close>

fun pushMenuItems :: "menuitem list \<Rightarrow> treeitem list \<Rightarrow> jserror + menuitem list" where
  "pushMenuItems menu_items [] = Inr menu_items"
| "pushMenuItems menu_items (ENTRY app # iter) =
     (let icon = (case appinfo_get_icon app of
                    None \<Rightarrow> JStr ''missing-image''
                  | Some gi \<Rightarrow> to_string gi);
          item = MenuItem (appinfo_get_name app) icon (Some (MainMenu_activate app)) None
      in pushMenuItems (menu_items @ [item]) iter)"
| "pushMenuItems menu_items (DIRECTORY dir_name dir_icon dir # iter) =
     (case dir_icon of
        None \<Rightarrow> Inl TypeError
      | Some gi \<Rightarrow>
          (case pushMenuItems [] dir of
             Inl e \<Rightarrow> Inl e
           | Inr item_items \<Rightarrow>
               pushMenuItems (menu_items @ [MenuItem dir_name (to_string gi) None (Some item_items)])
                 iter))"
| "pushMenuItems menu_items (_ # iter) = pushMenuItems menu_items iter"

text \<open>
  \<^verbatim>\<open>createItem\<close> of \<^verbatim>\<open>MainMenu\<close> (lines 391 to 400):
  \<^verbatim>\<open>menu.load_sync()\<close> stands outside any \<^verbatim>\<open>try\<close>.
\<close>

definition MainMenu_createItem :: "host \<Rightarrow> jsval \<Rightarrow> jsval \<Rightarrow> jserror + menuitem" where
  "MainMenu_createItem h name icon =
     (case load_sync h of
        Some e \<Rightarrow> Inl e
      | None \<Rightarrow>
          (case pushMenuItems [] (get_root_directory h) of
             Inl e \<Rightarrow> Inl e
           | Inr result_items \<Rightarrow> Inr (MenuItem name icon None (Some result_items))))"

section \<open>Activation\<close>







section \<open>The registry\<close>

text \<open>\<^verbatim>\<open>SettingsTypes\<close> (line 40): an object from names to numbers.\<close>

definition SettingsTypes :: "(string \<times> nat) list" where
  "SettingsTypes =
     [(''NONE'', 0), (''HOTKEY'', 1), (''COMMAND'', 2), (''FILE'', 3), (''URL'', 4), (''COUNT'', 5)]"

text \<open>
  A \<^verbatim>\<open>createItem\<close> function takes the name, the icon and, for some item types, one
  more argument: a value it stores, or the count \<^verbatim>\<open>maxNum\<close>.
\<close>

datatype factory =
  Factory_param "host \<Rightarrow> jsval \<Rightarrow> jsval \<Rightarrow> jsval \<Rightarrow> jserror + menuitem"
  | Factory_plain "host \<Rightarrow> jsval \<Rightarrow> jsval \<Rightarrow> jserror + menuitem"
  | Factory_count "host \<Rightarrow> jsval \<Rightarrow> jsval \<Rightarrow> int \<Rightarrow> jserror + menuitem"

text \<open>
  Calling a factory with \<^verbatim>\<open>(name, icon, x)\<close>: \<open>param\<close> is the third argument where
  the factory stores it, \<open>maxNum\<close> where it is a count; a factory of two parameters
  ignores it.
\<close>

fun call_factory :: "factory \<Rightarrow> host \<Rightarrow> jsval \<Rightarrow> jsval \<Rightarrow> jsval \<Rightarrow> int \<Rightarrow> jserror + menuitem" where
  "call_factory (Factory_param f) h name icon param maxNum = f h name icon param"
| "call_factory (Factory_plain f) h name icon param maxNum = f h name icon"
| "call_factory (Factory_count f) h name icon param maxNum = f h name icon maxNum"

text \<open>
  An entry of \<^verbatim>\<open>ItemTypes\<close>. A property read from \<^verbatim>\<open>SettingsTypes\<close> is
  \<^verbatim>\<open>undefined\<close> (\<open>None\<close>) when the object has no such key.
\<close>

record descriptor =
  type_name :: string
  type_icon :: string
  description :: string
  settingsType :: "nat option"
  settingsList :: string
  createItem :: factory

definition ItemTypes :: "(string \<times> descriptor) list" where
  "ItemTypes =
     [(''Hotkey'',
         \<lparr>type_name = ''Press Hotkey'', type_icon = ''accessories-character-map'',
          description = ''Simulates a key stroke.'',
          settingsType = map_of SettingsTypes ''HOTKEY'',
          settingsList = ''action-types-list'',
          createItem = Factory_param Hotkey_createItem\<rparr>),
      (''Command'',
         \<lparr>type_name = ''Launch Application'', type_icon = ''utilities-terminal'',
          description = ''Runs any shell command.'',
          settingsType = map_of SettingsTypes ''COMMAND'',
          settingsList = ''action-types-list'',
          createItem = Factory_param Command_createItem\<rparr>),
      (''Url'',
         \<lparr>type_name = ''Open URL'', type_icon = ''applications-internet'',
          description = ''Opens an URL with the default browser.'',
          settingsType = map_of SettingsTypes ''URL'',
          settingsList = ''action-types-list'',
          createItem = Factory_param Url_createItem\<rparr>),
      (''File'',
         \<lparr>type_name = ''Open File'', type_icon = ''text-x-generic'',
          description = ''Opens a file with the default applications.'',
          settingsType = map_of SettingsTypes ''FILE'',
          settingsList = ''action-types-list'',
          createItem = Factory_param File_createItem\<rparr>),
      (''Bookmarks'',
         \<lparr>type_name = ''Bookmarks'', type_icon = ''folder'',
          description = ''Shows your commonly used directories.'',
          settingsType = map_of SettingsTypes ''NONE'',
          settingsList = ''submenu-types-list'',
          createItem = Factory_plain Bookmarks_createItem\<rparr>),
      (''RunningApps'',
         \<lparr>type_name = ''Running Apps'', type_icon = ''preferences-system-windows'',
          description = ''Shows the currently running applications.'',
          settingsType = map_of SettingsTypes ''NONE'',
          settingsList = ''submenu-types-list'',
          createItem = Factory_plain RunningApps_createItem\<rparr>),
      (''RecentFiles'',
         \<lparr>type_name = ''Recent Files'', type_icon = ''document-open-recent'',
          description = ''Shows your recently used files.'',
          settingsType = map_of SettingsTypes ''COUNT'',
          settingsList = ''submenu-types-list'',
          createItem = Factory_count RecentFiles_createItem\<rparr>),
      (''FrequentlyUsed'',
         \<lparr>type_name = ''Frequently Used'', type_icon = ''emblem-favorite'',
          description = ''Shows your frequently used applications.'',
          settingsType = map_of SettingsTypes ''COUNT'',
          settingsList = ''submenu-types-list'',
          createItem = Factory_count FrequentlyUsed_createItem\<rparr>),
      (''Favorites'',
         \<lparr>type_name = ''Favorites'', type_icon = ''starred'',
          description = ''Shows your pinned applications.'',
          settingsType = map_of SettingsTypes ''NONE'',
          settingsList = ''submenu-types-list'',
          createItem = Factory_plain Favorites_createItem\<rparr>),
      (''MainMenu'',
         \<lparr>type_name = ''Main Menu'', type_icon = ''applications-system'',
          description = ''Shows all installed applications.'' @ [CHR 0x0A] @
            ''Usually, this is very cluttered;'' @ [CHR 0x0A] @
            ''you should rather setup your own menus!'',
          settingsType = map_of SettingsTypes ''NONE'',
          settingsList = ''submenu-types-list'',
          createItem = Factory_plain MainMenu_createItem\<rparr>)]"

section \<open>Shapes of menu items\<close>

text \<open>
  A leaf has \<^verbatim>\<open>activate\<close> and no \<^verbatim>\<open>items\<close>; a container has \<^verbatim>\<open>items\<close>, all of
  them of one of the two shapes in turn, and no \<^verbatim>\<open>activate\<close>.
\<close>

fun wellshaped :: "menuitem \<Rightarrow> bool" where
  "wellshaped (MenuItem n i (Some a) None) = True"
| "wellshaped (MenuItem n i None (Some xs)) = list_all wellshaped xs"
| "wellshaped (MenuItem n i (Some a) (Some xs)) = False"
| "wellshaped (MenuItem n i None None) = False"

section \<open>Descriptions of the produced submenus\<close>

text \<open>
  What each submenu builder is said to produce, written with \<open>map\<close>, \<open>filter\<close>
  and \<open>concat\<close> over the host's collections; the theorems below compare the loops of
  the source with these.
\<close>

definition bookmark_paths :: "host \<Rightarrow> jsval list" where
  "bookmark_paths h = get_home_dir h # map (get_user_special_dir h) DEFAULT_DIRECTORIES"

text \<open>The files of a list of paths, or what the first failing \<^verbatim>\<open>new_for_path\<close> throws.\<close>

fun new_files :: "host \<Rightarrow> jsval list \<Rightarrow> jserror + gfile list" where
  "new_files h [] = Inr []"
| "new_files h (path # paths) =
     (case new_for_path h path of
        Inl e \<Rightarrow> Inl e
      | Inr file \<Rightarrow>
          (case new_files h paths of
             Inl e \<Rightarrow> Inl e
           | Inr files \<Rightarrow> Inr (file # files)))"

definition app_has_icon :: "shellapp \<Rightarrow> bool" where
  "app_has_icon app = (appinfo_get_icon (app_get_app_info app) \<noteq> None)"

text \<open>The icon string of an application that has an icon.\<close>

definition app_icon_string :: "shellapp \<Rightarrow> jsval" where
  "app_icon_string app = to_string (the (appinfo_get_icon (app_get_app_info app)))"

definition window_items :: "shellapp \<Rightarrow> menuitem list" where
  "window_items app =
     map (\<lambda>window. MenuItem (get_title window) (app_icon_string app)
                     (Some (RunningApps_activate window)) None)
       (app_get_windows app)"

definition recent_has_icon :: "recentinfo \<Rightarrow> bool" where
  "recent_has_icon recentFile = (recent_get_gicon recentFile \<noteq> None)"

text \<open>The item of a recent file that has an icon.\<close>

definition recent_item :: "recentinfo \<Rightarrow> menuitem" where
  "recent_item recentFile =
     MenuItem (recent_get_display_name recentFile) (to_string (the (recent_get_gicon recentFile)))
       (Some (RecentFiles_activate recentFile)) None"

definition frequent_item :: "shellapp \<Rightarrow> menuitem" where
  "frequent_item app =
     MenuItem (app_get_name app) (app_icon_string app) (Some (FrequentlyUsed_activate app)) None"

definition favorite_item :: "shellapp \<Rightarrow> menuitem" where
  "favorite_item app =
     MenuItem (app_get_name app) (app_icon_string app) (Some (Favorites_activate app)) None"

text \<open>The non-null elements of a list, in order.\<close>

fun non_null :: "'a option list \<Rightarrow> 'a list" where
  "non_null [] = []"
| "non_null (None # xs) = non_null xs"
| "non_null (Some x # xs) = x # non_null xs"

text \<open>Every directory of a tree, at any depth, has an icon.\<close>

fun directories_have_icons :: "treeitem \<Rightarrow> bool" where
  "directories_have_icons (DIRECTORY dir_name dir_icon dir) =
     (dir_icon \<noteq> None \<and> list_all directories_have_icons dir)"
| "directories_have_icons (ENTRY app) = True"
| "directories_have_icons SEPARATOR = True"
| "directories_have_icons HEADER = True"
| "directories_have_icons ALIAS = True"

text \<open>
  The three-way switch on the type of a node: what a node of the menu tree contributes to
  the submenu of its directory, in a tree whose directories have icons.
\<close>

fun node_items :: "treeitem \<Rightarrow> menuitem list" where
  "node_items (ENTRY app) =
     [MenuItem (appinfo_get_name app)
        (case appinfo_get_icon app of None \<Rightarrow> JStr ''missing-image'' | Some gi \<Rightarrow> to_string gi)
        (Some (MainMenu_activate app)) None]"
| "node_items (DIRECTORY dir_name dir_icon dir) =
     [MenuItem dir_name (to_string (the dir_icon)) None (Some (concat (map node_items dir)))]"
| "node_items SEPARATOR = []"
| "node_items HEADER = []"
| "node_items ALIAS = []"

section \<open>Names and icons\<close>










section \<open>A concrete host\<close>

text \<open>
  A small host on which the definitions can be evaluated: one running application with
  two windows, three recent files of which the second no longer exists, a null entry in
  the list of most used applications, a favorite that is no longer installed, a special
  directory that is configured but does not exist, and a menu tree with a subdirectory
  and an application without an icon.
\<close>

definition example_appinfo :: appinfo where
  "example_appinfo =
     \<lparr>appinfo_get_name = JStr ''Files'',
      appinfo_get_icon = Some (GIcon (JStr ''system-file-manager'')),
      appinfo_launch = None\<rparr>"

definition example_tool :: appinfo where
  "example_tool =
     \<lparr>appinfo_get_name = JStr ''Tool'',
      appinfo_get_icon = None,
      appinfo_launch = Some (HostError ''not executable'')\<rparr>"

definition example_window :: "string \<Rightarrow> window" where
  "example_window title = \<lparr>get_title = JStr title, window_activate = None\<rparr>"

definition example_app :: shellapp where
  "example_app =
     \<lparr>app_get_name = JStr ''Files'',
      app_get_app_info = example_appinfo,
      app_get_windows = [example_window ''Home'', example_window ''Music''],
      app_open_new_window = None\<rparr>"

definition example_recent :: "string \<Rightarrow> bool \<Rightarrow> recentinfo" where
  "example_recent title ex =
     \<lparr>recent_exists = ex,
      recent_get_display_name = JStr title,
      recent_get_gicon = Some (GIcon (JStr ''text-x-generic'')),
      recent_get_uri = JStr (''file:///tmp/'' @ title)\<rparr>"

text \<open>A directory that exists, and one that does not: both queries of the latter throw.\<close>

definition example_directory :: "string \<Rightarrow> string \<Rightarrow> gfile" where
  "example_directory path dir_name =
     \<lparr>query_info_display_name =
        Inr \<lparr>info_get_display_name = JStr dir_name, info_get_icon = Some (GIcon (JStr ''folder''))\<rparr>,
      query_info_icon =
        Inr \<lparr>info_get_display_name = JStr dir_name, info_get_icon = Some (GIcon (JStr ''folder''))\<rparr>,
      get_basename = JStr dir_name,
      file_get_uri = JStr (''file://'' @ path)\<rparr>"

definition missing_directory :: "string \<Rightarrow> string \<Rightarrow> gfile" where
  "missing_directory path dir_name =
     \<lparr>query_info_display_name = Inl (HostError ''No such file or directory''),
      query_info_icon = Inl (HostError ''No such file or directory''),
      get_basename = JStr dir_name,
      file_get_uri = JStr (''file://'' @ path)\<rparr>"

text \<open>\<^verbatim>\<open>Gio.File.new_for_path\<close>: a file for a path, an exception for null.\<close>

definition example_new_for_path :: "jsval \<Rightarrow> jserror + gfile" where
  "example_new_for_path path =
     (case path of
        JStr p \<Rightarrow>
          (if p = ''/home/user/Templates'' then Inr (missing_directory p ''Templates'')
           else if p = ''/home/user'' then Inr (example_directory p ''user'')
           else Inr (example_directory p ''Shared''))
      | JNull \<Rightarrow> Inl (HostError ''Argument path may not be null'')
      | JUndefined \<Rightarrow> Inl (HostError ''Argument path may not be null''))"

definition example_shell :: shell where
  "example_shell =
     \<lparr>get_running = [example_app],
      get_most_used = [Some example_app, None],
      lookup_app = (\<lambda>appName. if appName = ''files.desktop'' then Some example_app else None)\<rparr>"

definition example_host :: host where
  "example_host =
     \<lparr>Shell = Some example_shell,
      InputManipulator = Some (\<lambda>hotkey. None),
      create_app_launch_context = None,
      create_from_commandline = (\<lambda>command. Inr example_tool),
      launch_default_for_uri = (\<lambda>uri. None),
      this_name = JUndefined,
      get_home_dir = JStr ''/home/user'',
      get_user_special_dir =
        (\<lambda>d. if d = DIRECTORY_TEMPLATES then JStr ''/home/user/Templates''
             else JStr ''/home/user/Shared''),
      new_for_path = example_new_for_path,
      recent_get_items =
        [example_recent ''a.txt'' True, example_recent ''b.txt'' False, example_recent ''c.txt'' True],
      favorite_apps = [''files.desktop'', ''gone.desktop''],
      load_sync = None,
      get_root_directory =
        [ENTRY example_appinfo, SEPARATOR,
         DIRECTORY (JStr ''Tools'') (Some (GIcon (JStr ''applications-utilities'')))
           [ENTRY example_tool, HEADER],
         ALIAS]\<rparr>"




text \<open>The same host with a menu directory that has no icon.\<close>

definition iconless_directory_host :: host where
  "iconless_directory_host =
     example_host
       \<lparr>get_root_directory :=
          [ENTRY example_appinfo, DIRECTORY (JStr ''Tools'') None [ENTRY example_tool]]\<rparr>"


section \<open>The loops of the builders, in closed form\<close>

lemma pushFile_append: "pushFile menu_items file = menu_items @ pushFile [] file"
  by (simp add: pushFile_def Let_def)

lemma new_files_Inr:
  "(new_files h paths = Inr files) = (map (new_for_path h) paths = map Inr files)"
proof (induction paths arbitrary: files)
  case Nil
  then show ?case by auto
next
  case (Cons path paths)
  show ?case
  proof (cases "new_for_path h path")
    case (Inl e)
    then show ?thesis by (cases files) auto
  next
    case (Inr gf)
    show ?thesis
    proof (cases "new_files h paths")
      case (Inl e)
      with Inr Cons.IH show ?thesis by (cases files) auto
    next
      case inr: (Inr fs)
      with Inr Cons.IH [of fs] Cons.IH [of "tl files"] show ?thesis
        by (cases files) auto
    qed
  qed
qed


lemma Bookmarks_loop_drop:
  "Bookmarks_loop h i result_items =
     (case new_files h (map (get_user_special_dir h) (drop i DEFAULT_DIRECTORIES)) of
        Inl e \<Rightarrow> Inl e
      | Inr files \<Rightarrow> Inr (result_items @ concat (map (pushFile []) files)))"
proof (induction h i result_items rule: Bookmarks_loop.induct)
  case (1 h i result_items)
  show ?case
  proof (cases "i < length DEFAULT_DIRECTORIES")
    case True
    then have d: "drop i DEFAULT_DIRECTORIES = DEFAULT_DIRECTORIES ! i # drop (Suc i) DEFAULT_DIRECTORIES"
      by (simp add: Cons_nth_drop_Suc)
    show ?thesis
    proof (cases "new_for_path h (get_user_special_dir h (DEFAULT_DIRECTORIES ! i))")
      case (Inl e)
      with True show ?thesis
        by (subst Bookmarks_loop.simps, subst d) (simp add: Let_def)
    next
      case (Inr gf)
      have "Bookmarks_loop h i result_items = Bookmarks_loop h (Suc i) (pushFile result_items gf)"
        using True Inr by (subst Bookmarks_loop.simps) (simp add: Let_def)
      also have "\<dots> =
          (case new_files h (map (get_user_special_dir h) (drop (Suc i) DEFAULT_DIRECTORIES)) of
             Inl e \<Rightarrow> Inl e
           | Inr files \<Rightarrow> Inr (pushFile result_items gf @ concat (map (pushFile []) files)))"
        using 1 [OF True refl Inr] .
      finally show ?thesis
        using Inr by (subst d, subst (asm) pushFile_append) (simp split: sum.splits)
    qed
  next
    case False
    then show ?thesis by (subst Bookmarks_loop.simps) simp
  qed
qed

lemma Bookmarks_createItem_eq:
  "Bookmarks_createItem h name icon =
     (case new_files h (bookmark_paths h) of
        Inl e \<Rightarrow> Inl e
      | Inr files \<Rightarrow> Inr (MenuItem name icon None (Some (concat (map (pushFile []) files)))))"
  by (simp add: Bookmarks_createItem_def Bookmarks_loop_drop bookmark_paths_def
        split: sum.splits)

lemma RunningApps_forEach_map:
  "RunningApps_forEach result_items icon windows =
     result_items @
       map (\<lambda>window. MenuItem (get_title window) icon (Some (RunningApps_activate window)) None)
         windows"
  by (induction windows arbitrary: result_items) auto

lemma RunningApps_loop_eq:
  "RunningApps_loop apps i result_items =
     (if list_all app_has_icon (drop i apps)
      then Inr (result_items @ concat (map window_items (drop i apps)))
      else Inl TypeError)"
proof (induction apps i result_items rule: RunningApps_loop.induct)
  case (1 apps i result_items)
  show ?case
  proof (cases "i < length apps")
    case True
    then have d: "drop i apps = apps ! i # drop (Suc i) apps"
      by (simp add: Cons_nth_drop_Suc)
    show ?thesis
    proof (cases "appinfo_get_icon (app_get_app_info (apps ! i))")
      case None
      then have "\<not> app_has_icon (apps ! i)"
        by (simp add: app_has_icon_def)
      with True None show ?thesis
        by (subst RunningApps_loop.simps, subst d) simp
    next
      case (Some gi)
      then have hi: "app_has_icon (apps ! i)"
        by (simp add: app_has_icon_def)
      have w: "RunningApps_forEach result_items (to_string gi) (app_get_windows (apps ! i)) =
                 result_items @ window_items (apps ! i)"
        by (simp add: RunningApps_forEach_map window_items_def app_icon_string_def Some)
      have "RunningApps_loop apps i result_items =
              RunningApps_loop apps (Suc i)
                (RunningApps_forEach result_items (to_string gi) (app_get_windows (apps ! i)))"
        using True Some by (subst RunningApps_loop.simps) simp
      also have "\<dots> =
              (if list_all app_has_icon (drop (Suc i) apps)
               then Inr (RunningApps_forEach result_items (to_string gi) (app_get_windows (apps ! i)) @
                         concat (map window_items (drop (Suc i) apps)))
               else Inl TypeError)"
        using 1 [OF True refl Some] .
      finally show ?thesis
        by (subst d, subst d) (simp add: hi w)
    qed
  next
    case False
    then show ?thesis by (subst RunningApps_loop.simps) simp
  qed
qed

lemma RecentFiles_forEach_eq:
  "RecentFiles_forEach result_items recentFiles =
     (if list_all recent_has_icon (filter recent_exists recentFiles)
      then Inr (result_items @ map recent_item (filter recent_exists recentFiles))
      else Inl TypeError)"
  by (induction result_items recentFiles rule: RecentFiles_forEach.induct)
     (auto simp: recent_has_icon_def recent_item_def split: option.splits)

lemma FrequentlyUsed_forEach_eq:
  "FrequentlyUsed_forEach result_items apps =
     (if list_all app_has_icon (non_null apps)
      then Inr (result_items @ map frequent_item (non_null apps))
      else Inl TypeError)"
  by (induction result_items apps rule: FrequentlyUsed_forEach.induct)
     (auto simp: app_has_icon_def frequent_item_def app_icon_string_def split: option.splits)

lemma Favorites_forEach_eq:
  "Shell h = Some sh \<Longrightarrow>
   Favorites_forEach h result_items appNames =
     (if list_all app_has_icon (non_null (map (lookup_app sh) appNames))
      then Inr (result_items @ map favorite_item (non_null (map (lookup_app sh) appNames)))
      else Inl TypeError)"
  by (induction h result_items appNames rule: Favorites_forEach.induct)
     (auto simp: app_has_icon_def favorite_item_def app_icon_string_def split: option.splits)

lemma Favorites_forEach_no_Shell:
  "Shell h = None \<Longrightarrow>
   Favorites_forEach h result_items appNames =
     (if appNames = [] then Inr result_items else Inl TypeError)"
  by (cases appNames) auto

lemma pushMenuItems_eq:
  "pushMenuItems menu_items iter =
     (if list_all directories_have_icons iter
      then Inr (menu_items @ concat (map node_items iter))
      else Inl TypeError)"
  by (induction menu_items iter rule: pushMenuItems.induct)
     (auto simp: Let_def split: option.splits)

lemma MainMenu_createItem_eq:
  "MainMenu_createItem h name icon =
     (case load_sync h of
        Some e \<Rightarrow> Inl e
      | None \<Rightarrow>
          (if list_all directories_have_icons (get_root_directory h)
           then Inr (MenuItem name icon None (Some (concat (map node_items (get_root_directory h)))))
           else Inl TypeError))"
  by (simp add: MainMenu_createItem_def pushMenuItems_eq split: option.splits)

section \<open>Slices and non-null elements\<close>

lemma set_slice0: "set (slice0 xs end) \<subseteq> set xs"
  by (simp add: slice0_def set_take_subset)

lemma set_non_null: "set (non_null xs) = {x. Some x \<in> set xs}"
  by (induction xs rule: non_null.induct) auto

lemma set_non_null_slice0: "set (non_null (slice0 xs end)) \<subseteq> set (non_null xs)"
  using set_slice0 [of xs "end"] by (auto simp: set_non_null)

lemma slice0_nonneg: "0 \<le> end \<Longrightarrow> slice0 xs end = take (nat end) xs"
  by (simp add: slice0_def)

lemma length_non_null: "length (non_null xs) \<le> length xs"
  by (induction xs rule: non_null.induct) auto

lemma length_slice0: "length (slice0 xs end) \<le> length xs"
  unfolding slice0_def by (metis length_take min.cobounded1)

lemma non_null_map_Some: "non_null (map Some xs) = xs"
  by (induction xs) simp_all

lemma non_null_map_filter:
  "non_null (map f (filter (\<lambda>x. f x \<noteq> None) xs)) = non_null (map f xs)"
  by (induction xs) auto

section \<open>The example host evaluated\<close>

lemma example_new_files:
  "new_files example_host (bookmark_paths example_host) =
     Inr [example_directory ''/home/user'' ''user'',
          example_directory ''/home/user/Shared'' ''Shared'',
          example_directory ''/home/user/Shared'' ''Shared'',
          example_directory ''/home/user/Shared'' ''Shared'',
          example_directory ''/home/user/Shared'' ''Shared'',
          example_directory ''/home/user/Shared'' ''Shared'',
          missing_directory ''/home/user/Templates'' ''Templates'',
          example_directory ''/home/user/Shared'' ''Shared'',
          example_directory ''/home/user/Shared'' ''Shared'']"
  by (simp add: bookmark_paths_def DEFAULT_DIRECTORIES_def example_host_def
        example_new_for_path_def)


lemma example_RunningApps:
  "RunningApps_createItem example_host name icon =
     Inr (MenuItem name icon None (Some (window_items example_app)))"
  by (simp add: RunningApps_createItem_def RunningApps_loop_eq example_host_def
        example_shell_def app_has_icon_def example_app_def example_appinfo_def)

lemma example_FrequentlyUsed_2:
  "FrequentlyUsed_createItem example_host name icon 2 =
     Inr (MenuItem name icon None (Some [frequent_item example_app]))"
  by (simp add: FrequentlyUsed_createItem_def FrequentlyUsed_forEach_eq example_host_def
        example_shell_def slice0_def app_has_icon_def example_app_def example_appinfo_def)

lemma example_Favorites:
  "Favorites_createItem example_host name icon =
     Inr (MenuItem name icon None (Some [favorite_item example_app]))"
proof -
  have sh: "Shell example_host = Some example_shell"
    by (simp add: example_host_def)
  show ?thesis
    by (simp add: Favorites_createItem_def Favorites_forEach_eq [OF sh])
       (simp add: example_host_def example_shell_def app_has_icon_def example_app_def
          example_appinfo_def)
qed

lemma example_RecentFiles_2:
  "RecentFiles_createItem example_host name icon 2 =
     Inr (MenuItem name icon None (Some [recent_item (example_recent ''a.txt'' True)]))"
  by (simp add: RecentFiles_createItem_def RecentFiles_forEach_eq example_host_def slice0_def
        example_recent_def recent_has_icon_def)

lemma example_RecentFiles_3:
  "RecentFiles_createItem example_host name icon 3 =
     Inr (MenuItem name icon None
            (Some [recent_item (example_recent ''a.txt'' True),
                   recent_item (example_recent ''c.txt'' True)]))"
  by (simp add: RecentFiles_createItem_def RecentFiles_forEach_eq example_host_def slice0_def
        example_recent_def recent_has_icon_def)

lemma example_Bookmarks:
  "Bookmarks_createItem example_host name icon =
     Inr (MenuItem name icon None
            (Some (concat (map (pushFile [])
               [example_directory ''/home/user'' ''user'',
                example_directory ''/home/user/Shared'' ''Shared'',
                example_directory ''/home/user/Shared'' ''Shared'',
                example_directory ''/home/user/Shared'' ''Shared'',
                example_directory ''/home/user/Shared'' ''Shared'',
                example_directory ''/home/user/Shared'' ''Shared'',
                missing_directory ''/home/user/Templates'' ''Templates'',
                example_directory ''/home/user/Shared'' ''Shared'',
                example_directory ''/home/user/Shared'' ''Shared'']))))"
  by (simp only: Bookmarks_createItem_eq example_new_files sum.case)

lemma example_MainMenu:
  "MainMenu_createItem example_host name icon =
     Inr (MenuItem name icon None
            (Some [MenuItem (JStr ''Files'') (JStr ''system-file-manager'')
                     (Some (MainMenu_activate example_appinfo)) None,
                   MenuItem (JStr ''Tools'') (JStr ''applications-utilities'') None
                     (Some [MenuItem (JStr ''Tool'') (JStr ''missing-image'')
                              (Some (MainMenu_activate example_tool)) None])]))"
  by (simp add: MainMenu_createItem_def example_host_def example_appinfo_def example_tool_def
        Let_def)

section \<open>The registry table\<close>

text \<open>
  Claim C7. \<^verbatim>\<open>ItemTypes\<close> is a static table of ten entries, \<^verbatim>\<open>Hotkey\<close>,
  \<^verbatim>\<open>Command\<close>, \<^verbatim>\<open>Url\<close>, \<^verbatim>\<open>File\<close>, \<^verbatim>\<open>Bookmarks\<close>, \<^verbatim>\<open>RunningApps\<close>,
  \<^verbatim>\<open>RecentFiles\<close>, \<^verbatim>\<open>FrequentlyUsed\<close>, \<^verbatim>\<open>Favorites\<close> and \<^verbatim>\<open>MainMenu\<close>.
  Each entry has a non-empty name, an icon, a description and a settings list (strings
  by their type), a \<^verbatim>\<open>settingsType\<close> that is one of the values of
  \<^verbatim>\<open>SettingsTypes\<close>, and a \<^verbatim>\<open>createItem\<close> function.
\<close>

theorem ItemTypes_entries:
  "map fst ItemTypes =
     [''Hotkey'', ''Command'', ''Url'', ''File'', ''Bookmarks'', ''RunningApps'', ''RecentFiles'',
      ''FrequentlyUsed'', ''Favorites'', ''MainMenu''] \<and>
   list_all (\<lambda>d. type_name d \<noteq> [] \<and> settingsType d \<in> set (map (Some \<circ> snd) SettingsTypes))
     (map snd ItemTypes) \<and>
   map (settingsType \<circ> snd) ItemTypes =
     [Some 1, Some 2, Some 4, Some 3, Some 0, Some 0, Some 5, Some 5, Some 0, Some 0] \<and>
   map (createItem \<circ> snd) ItemTypes =
     [Factory_param Hotkey_createItem, Factory_param Command_createItem,
      Factory_param Url_createItem, Factory_param File_createItem,
      Factory_plain Bookmarks_createItem, Factory_plain RunningApps_createItem,
      Factory_count RecentFiles_createItem, Factory_count FrequentlyUsed_createItem,
      Factory_plain Favorites_createItem, Factory_plain MainMenu_createItem]"
  by (simp add: ItemTypes_def SettingsTypes_def)

section \<open>The shape of the produced records\<close>

lemma wellshaped_pushFile: "list_all wellshaped (pushFile [] file)"
  by (simp add: pushFile_def Let_def)

lemma wellshaped_window_items: "list_all wellshaped (window_items app)"
  by (simp add: window_items_def list_all_iff)

lemma wellshaped_node_items: "list_all wellshaped (node_items t)"
  by (induction t) (simp_all add: list_all_iff)

lemma wellshaped_Bookmarks: "Bookmarks_createItem h name icon = Inr r \<Longrightarrow> wellshaped r"
  by (auto simp: Bookmarks_createItem_eq list_all_iff wellshaped_pushFile [unfolded list_all_iff]
        split: sum.splits)

lemma wellshaped_RunningApps: "RunningApps_createItem h name icon = Inr r \<Longrightarrow> wellshaped r"
  by (auto simp: RunningApps_createItem_def RunningApps_loop_eq list_all_iff
        wellshaped_window_items [unfolded list_all_iff] split: option.splits if_splits)

lemma wellshaped_RecentFiles: "RecentFiles_createItem h name icon maxNum = Inr r \<Longrightarrow> wellshaped r"
  by (auto simp: RecentFiles_createItem_def RecentFiles_forEach_eq list_all_iff recent_item_def
        Let_def split: if_splits)

lemma wellshaped_FrequentlyUsed:
  "FrequentlyUsed_createItem h name icon maxNum = Inr r \<Longrightarrow> wellshaped r"
  by (auto simp: FrequentlyUsed_createItem_def FrequentlyUsed_forEach_eq list_all_iff Let_def
        frequent_item_def split: option.splits if_splits)

lemma wellshaped_Favorites: "Favorites_createItem h name icon = Inr r \<Longrightarrow> wellshaped r"
proof (cases "Shell h")
  case None
  assume "Favorites_createItem h name icon = Inr r"
  with None show ?thesis
    by (auto simp: Favorites_createItem_def Favorites_forEach_no_Shell Let_def split: if_splits)
next
  case (Some sh)
  assume "Favorites_createItem h name icon = Inr r"
  with Some show ?thesis
    by (auto simp: Favorites_createItem_def Favorites_forEach_eq list_all_iff favorite_item_def Let_def
          split: if_splits)
qed

lemma wellshaped_MainMenu: "MainMenu_createItem h name icon = Inr r \<Longrightarrow> wellshaped r"
  by (auto simp: MainMenu_createItem_eq list_all_iff
        wellshaped_node_items [unfolded list_all_iff] split: option.splits if_splits)

text \<open>
  Claim C1. For every entry of the registry and every argument tuple, a record that
  \<^verbatim>\<open>createItem\<close> returns is a leaf with \<^verbatim>\<open>activate\<close> and without
  \<^verbatim>\<open>items\<close>, or a container with \<^verbatim>\<open>items\<close> and without \<^verbatim>\<open>activate\<close>
  whose items have one of these two shapes in turn.
\<close>

theorem createItem_wellshaped:
  assumes "(key, d) \<in> set ItemTypes"
    and "call_factory (createItem d) h name icon param maxNum = Inr r"
  shows "wellshaped r"
proof -
  from assms(1) have
    "createItem d \<in> {Factory_param Hotkey_createItem, Factory_param Command_createItem,
       Factory_param Url_createItem, Factory_param File_createItem,
       Factory_plain Bookmarks_createItem, Factory_plain RunningApps_createItem,
       Factory_count RecentFiles_createItem, Factory_count FrequentlyUsed_createItem,
       Factory_plain Favorites_createItem, Factory_plain MainMenu_createItem}"
    by (auto simp: ItemTypes_def)
  with assms(2) show ?thesis
    by (auto simp: Hotkey_createItem_def Command_createItem_def Url_createItem_def
          File_createItem_def
          dest: wellshaped_Bookmarks wellshaped_RunningApps wellshaped_RecentFiles
            wellshaped_FrequentlyUsed wellshaped_Favorites wellshaped_MainMenu)
qed

text \<open>The main menu of the example host, built through the registry.\<close>

theorem createItem_wellshaped_witness:
  "(''MainMenu'', the (map_of ItemTypes ''MainMenu'')) \<in> set ItemTypes \<and>
   call_factory (createItem (the (map_of ItemTypes ''MainMenu''))) example_host
       (JStr ''Apps'') (JStr ''start-here'') JUndefined 0 =
     Inr (MenuItem (JStr ''Apps'') (JStr ''start-here'') None
            (Some [MenuItem (JStr ''Files'') (JStr ''system-file-manager'')
                     (Some (MainMenu_activate example_appinfo)) None,
                   MenuItem (JStr ''Tools'') (JStr ''applications-utilities'') None
                     (Some [MenuItem (JStr ''Tool'') (JStr ''missing-image'')
                              (Some (MainMenu_activate example_tool)) None])])) \<and>
   wellshaped
     (MenuItem (JStr ''Apps'') (JStr ''start-here'') None
        (Some [MenuItem (JStr ''Files'') (JStr ''system-file-manager'')
                 (Some (MainMenu_activate example_appinfo)) None,
               MenuItem (JStr ''Tools'') (JStr ''applications-utilities'') None
                 (Some [MenuItem (JStr ''Tool'') (JStr ''missing-image'')
                          (Some (MainMenu_activate example_tool)) None])]))"
proof -
  have m: "(''MainMenu'', the (map_of ItemTypes ''MainMenu'')) \<in> set ItemTypes"
    by (simp add: ItemTypes_def)
  have c: "call_factory (createItem (the (map_of ItemTypes ''MainMenu''))) example_host
       (JStr ''Apps'') (JStr ''start-here'') JUndefined 0 =
     Inr (MenuItem (JStr ''Apps'') (JStr ''start-here'') None
            (Some [MenuItem (JStr ''Files'') (JStr ''system-file-manager'')
                     (Some (MainMenu_activate example_appinfo)) None,
                   MenuItem (JStr ''Tools'') (JStr ''applications-utilities'') None
                     (Some [MenuItem (JStr ''Tool'') (JStr ''missing-image'')
                              (Some (MainMenu_activate example_tool)) None])]))"
    by (simp add: ItemTypes_def example_MainMenu)
  from createItem_wellshaped [OF m c] m c show ?thesis
    by simp
qed

section \<open>Activation and its failure handlers\<close>



section \<open>Names and icons of the produced records\<close>

















section \<open>The counted submenus\<close>

text \<open>
  Claim C4. For a non-negative \<^verbatim>\<open>maxNum\<close>, \<^verbatim>\<open>RecentFiles\<close> and
  \<^verbatim>\<open>FrequentlyUsed\<close> build their children from the prefix \<^verbatim>\<open>slice(0, maxNum)\<close> of
  the host's list, so a submenu they produce has at most \<^verbatim>\<open>maxNum\<close> children.
\<close>

theorem counted_submenus_bounded:
  assumes "0 \<le> maxNum"
  shows "(\<forall>r. RecentFiles_createItem h name icon maxNum = Inr r \<longrightarrow>
            children r = map recent_item (filter recent_exists (take (nat maxNum) (recent_get_items h))) \<and>
            int (length (children r)) \<le> maxNum) \<and>
         (\<forall>r. FrequentlyUsed_createItem h name icon maxNum = Inr r \<longrightarrow>
            (\<exists>sh. Shell h = Some sh \<and>
               children r = map frequent_item (non_null (take (nat maxNum) (get_most_used sh))) \<and>
               int (length (children r)) \<le> maxNum))"
proof -
  have recent: "children r =
      map recent_item (filter recent_exists (take (nat maxNum) (recent_get_items h))) \<and>
      int (length (children r)) \<le> maxNum"
    if a: "RecentFiles_createItem h name icon maxNum = Inr r" for r
  proof -
    from a assms have c: "children r =
        map recent_item (filter recent_exists (take (nat maxNum) (recent_get_items h)))"
      by (auto simp: RecentFiles_createItem_def RecentFiles_forEach_eq slice0_nonneg children_def
            Let_def split: if_splits)
    have "length (filter recent_exists (take (nat maxNum) (recent_get_items h)))
            \<le> length (take (nat maxNum) (recent_get_items h))"
      by (rule length_filter_le)
    moreover have "length (take (nat maxNum) (recent_get_items h)) \<le> nat maxNum"
      by simp
    ultimately have "int (length (filter recent_exists (take (nat maxNum) (recent_get_items h)))) \<le> maxNum"
      using assms by linarith
    with c show ?thesis
      by simp
  qed
  have frequent: "\<exists>sh. Shell h = Some sh \<and>
               children r = map frequent_item (non_null (take (nat maxNum) (get_most_used sh))) \<and>
               int (length (children r)) \<le> maxNum"
    if a: "FrequentlyUsed_createItem h name icon maxNum = Inr r" for r
  proof -
    from a obtain sh where sh: "Shell h = Some sh"
      by (auto simp: FrequentlyUsed_createItem_def split: option.splits)
    from a sh assms have c: "children r = map frequent_item (non_null (take (nat maxNum) (get_most_used sh)))"
      by (auto simp: FrequentlyUsed_createItem_def FrequentlyUsed_forEach_eq slice0_nonneg children_def
            Let_def split: if_splits)
    have "length (non_null (take (nat maxNum) (get_most_used sh)))
            \<le> length (take (nat maxNum) (get_most_used sh))"
      by (rule length_non_null)
    moreover have "length (take (nat maxNum) (get_most_used sh)) \<le> nat maxNum"
      by simp
    ultimately have "int (length (non_null (take (nat maxNum) (get_most_used sh)))) \<le> maxNum"
      using assms by linarith
    with c have "int (length (children r)) \<le> maxNum"
      by simp
    with sh c show ?thesis
      by simp
  qed
  from recent frequent show ?thesis
    by blast
qed

text \<open>
  On the example host with \<^verbatim>\<open>maxNum = 2\<close>: one recent file (the second of the
  first two no longer exists) and one application (the second entry is null).
\<close>

theorem counted_submenus_bounded_witness:
  "(0::int) \<le> 2 \<and>
   RecentFiles_createItem example_host (JStr ''Recent Files'') (JStr ''document-open-recent'') 2 =
     Inr (MenuItem (JStr ''Recent Files'') (JStr ''document-open-recent'') None
            (Some [recent_item (example_recent ''a.txt'' True)])) \<and>
   int (length (children (MenuItem (JStr ''Recent Files'') (JStr ''document-open-recent'') None
            (Some [recent_item (example_recent ''a.txt'' True)])))) \<le> 2 \<and>
   FrequentlyUsed_createItem example_host (JStr ''Recent Files'') (JStr ''document-open-recent'') 2 =
     Inr (MenuItem (JStr ''Recent Files'') (JStr ''document-open-recent'') None
            (Some [frequent_item example_app])) \<and>
   int (length (children (MenuItem (JStr ''Recent Files'') (JStr ''document-open-recent'') None
            (Some [frequent_item example_app])))) \<le> 2"
proof -
  have z: "(0::int) \<le> 2" by simp
  note r = example_RecentFiles_2 [of "JStr ''Recent Files''" "JStr ''document-open-recent''"]
  note f = example_FrequentlyUsed_2 [of "JStr ''Recent Files''" "JStr ''document-open-recent''"]
  note bounded = counted_submenus_bounded
    [OF z, of example_host "JStr ''Recent Files''" "JStr ''document-open-recent''"]
  from bounded r
  have br: "int (length (children (MenuItem (JStr ''Recent Files'') (JStr ''document-open-recent'') None
            (Some [recent_item (example_recent ''a.txt'' True)])))) \<le> 2"
    by blast
  from bounded f
  have bf: "int (length (children (MenuItem (JStr ''Recent Files'') (JStr ''document-open-recent'') None
            (Some [frequent_item example_app])))) \<le> 2"
    by blast
  from z r f br bf show ?thesis
    by simp
qed

section \<open>The walk over the menu tree\<close>

lemma length_node_items: "length (node_items t) \<le> 1"
  by (cases t) simp_all

lemma length_concat_node_items: "length (concat (map node_items iter)) \<le> length iter"
proof (induction iter)
  case Nil
  then show ?case by simp
next
  case (Cons t iter)
  with length_node_items [of t] show ?case by simp
qed

text \<open>
  The walk is defined by recursion on the finite tree (the definition above comes with
  its termination proof), so it ends on every tree. On a tree whose directories all
  have icons it does what the three-way switch says: each \<^verbatim>\<open>ENTRY\<close> gives one leaf,
  each \<^verbatim>\<open>DIRECTORY\<close> one container holding the walk of that directory, every other
  node nothing. On any other tree it throws.
\<close>

lemma pushMenuItems_three_way:
  "list_all directories_have_icons iter \<Longrightarrow>
   pushMenuItems menu_items iter = Inr (menu_items @ concat (map node_items iter)) \<and>
   length (concat (map node_items iter)) \<le> length iter"
  by (simp add: pushMenuItems_eq length_concat_node_items)

lemma pushMenuItems_throws:
  "\<not> list_all directories_have_icons iter \<Longrightarrow> pushMenuItems menu_items iter = Inl TypeError"
  by (simp add: pushMenuItems_eq)

text \<open>
  Claim C5 says that every \<^verbatim>\<open>DIRECTORY\<close> node contributes exactly one container.
  The \<^verbatim>\<open>ENTRY\<close> branch tests \<^verbatim>\<open>app.get_icon()\<close> before calling
  \<^verbatim>\<open>to_string\<close> on it (line 351); the \<^verbatim>\<open>DIRECTORY\<close> branch calls
  \<^verbatim>\<open>directory.get_icon().to_string()\<close> untested (line 375). On a directory without
  an icon the walk raises \<^verbatim>\<open>TypeError\<close>: the directory contributes nothing, the
  entry pushed before it is lost with the rest, and \<^verbatim>\<open>createItem\<close> throws. With an
  icon, the same tree gives the leaf and the container.
\<close>

theorem pushMenuItems_iconless_directory:
  "pushMenuItems [] [ENTRY example_appinfo, DIRECTORY (JStr ''Tools'') None [ENTRY example_tool]] =
     Inl TypeError \<and>
   MainMenu_createItem iconless_directory_host (JStr ''Main Menu'') (JStr ''applications-system'') =
     Inl TypeError \<and>
   pushMenuItems []
       [ENTRY example_appinfo,
        DIRECTORY (JStr ''Tools'') (Some (GIcon (JStr ''applications-utilities'')))
          [ENTRY example_tool]] =
     Inr [MenuItem (JStr ''Files'') (JStr ''system-file-manager'')
            (Some (MainMenu_activate example_appinfo)) None,
          MenuItem (JStr ''Tools'') (JStr ''applications-utilities'') None
            (Some [MenuItem (JStr ''Tool'') (JStr ''missing-image'')
                     (Some (MainMenu_activate example_tool)) None])]"
  by (simp add: MainMenu_createItem_def iconless_directory_host_def example_host_def
        example_appinfo_def example_tool_def Let_def)

section \<open>The children of Bookmarks\<close>

lemma activate_pushFile:
  "map activate (concat (map (pushFile []) files)) =
     map (\<lambda>file. Some (Bookmarks_activate file)) files"
  by (induction files) (simp_all add: pushFile_def Let_def)






section \<open>The order of the children\<close>

lemma activate_window_items:
  "map activate (concat (map window_items apps)) =
     map (\<lambda>window. Some (RunningApps_activate window)) (concat (map app_get_windows apps))"
  by (induction apps) (simp_all add: window_items_def comp_def)

text \<open>
  Claim C6. The children of each produced submenu stand in the order of the host's
  collection: the files of the nine paths of \<^verbatim>\<open>Bookmarks\<close>; the windows of the
  running applications, application after application; the existing files of the sliced
  list of recent files; the non-null applications of the sliced list of most used
  applications; the favorites that are found, in the order of their names; the nodes of
  the root directory. Nothing is reordered, sorted or deduplicated.
\<close>

theorem children_in_host_order:
  "(\<forall>r. Bookmarks_createItem h name icon = Inr r \<longrightarrow>
      (\<exists>files. map (new_for_path h) (bookmark_paths h) = map Inr files \<and>
         children r = concat (map (pushFile []) files) \<and>
         map activate (children r) = map (\<lambda>file. Some (Bookmarks_activate file)) files)) \<and>
   (\<forall>r. RunningApps_createItem h name icon = Inr r \<longrightarrow>
      (\<exists>sh. Shell h = Some sh \<and>
         children r = concat (map window_items (get_running sh)) \<and>
         map activate (children r) =
           map (\<lambda>window. Some (RunningApps_activate window))
             (concat (map app_get_windows (get_running sh))))) \<and>
   (\<forall>r. RecentFiles_createItem h name icon maxNum = Inr r \<longrightarrow>
      children r = map recent_item (filter recent_exists (slice0 (recent_get_items h) maxNum))) \<and>
   (\<forall>r. FrequentlyUsed_createItem h name icon maxNum = Inr r \<longrightarrow>
      (\<exists>sh. Shell h = Some sh \<and>
         children r = map frequent_item (non_null (slice0 (get_most_used sh) maxNum)))) \<and>
   (\<forall>r. Favorites_createItem h name icon = Inr r \<longrightarrow>
      children r =
        (case Shell h of
           None \<Rightarrow> []
         | Some sh \<Rightarrow> map favorite_item (non_null (map (lookup_app sh) (favorite_apps h))))) \<and>
   (\<forall>r. MainMenu_createItem h name icon = Inr r \<longrightarrow>
      children r = concat (map node_items (get_root_directory h)))"
proof -
  have bookmarks: "\<exists>files. map (new_for_path h) (bookmark_paths h) = map Inr files \<and>
         children r = concat (map (pushFile []) files) \<and>
         map activate (children r) = map (\<lambda>file. Some (Bookmarks_activate file)) files"
    if a: "Bookmarks_createItem h name icon = Inr r" for r
  proof -
    from a obtain files where files: "new_files h (bookmark_paths h) = Inr files"
      and r: "r = MenuItem name icon None (Some (concat (map (pushFile []) files)))"
      by (auto simp: Bookmarks_createItem_eq split: sum.splits)
    from files have "map (new_for_path h) (bookmark_paths h) = map Inr files"
      by (simp only: new_files_Inr)
    moreover from r have "children r = concat (map (pushFile []) files)"
      by (simp add: children_def)
    ultimately show ?thesis
      by (intro exI [of _ files]) (simp add: activate_pushFile)
  qed
  have running: "\<exists>sh. Shell h = Some sh \<and>
         children r = concat (map window_items (get_running sh)) \<and>
         map activate (children r) =
           map (\<lambda>window. Some (RunningApps_activate window))
             (concat (map app_get_windows (get_running sh)))"
    if a: "RunningApps_createItem h name icon = Inr r" for r
  proof -
    from a obtain sh where sh: "Shell h = Some sh"
      by (auto simp: RunningApps_createItem_def split: option.splits)
    from a sh have "children r = concat (map window_items (get_running sh))"
      by (auto simp: RunningApps_createItem_def RunningApps_loop_eq children_def split: if_splits)
    with sh show ?thesis
      by (simp add: activate_window_items)
  qed
  have recent: "children r = map recent_item (filter recent_exists (slice0 (recent_get_items h) maxNum))"
    if a: "RecentFiles_createItem h name icon maxNum = Inr r" for r
    using a
    by (auto simp: RecentFiles_createItem_def RecentFiles_forEach_eq children_def Let_def
          split: if_splits)
  have frequent: "\<exists>sh. Shell h = Some sh \<and>
         children r = map frequent_item (non_null (slice0 (get_most_used sh) maxNum))"
    if a: "FrequentlyUsed_createItem h name icon maxNum = Inr r" for r
  proof -
    from a obtain sh where sh: "Shell h = Some sh"
      by (auto simp: FrequentlyUsed_createItem_def split: option.splits)
    from a sh have "children r = map frequent_item (non_null (slice0 (get_most_used sh) maxNum))"
      by (auto simp: FrequentlyUsed_createItem_def FrequentlyUsed_forEach_eq children_def Let_def
            split: if_splits)
    with sh show ?thesis
      by simp
  qed
  have favorites: "children r =
        (case Shell h of
           None \<Rightarrow> []
         | Some sh \<Rightarrow> map favorite_item (non_null (map (lookup_app sh) (favorite_apps h))))"
    if a: "Favorites_createItem h name icon = Inr r" for r
  proof (cases "Shell h")
    case None
    with a show ?thesis
      by (auto simp: Favorites_createItem_def Favorites_forEach_no_Shell children_def Let_def
            split: if_splits)
  next
    case (Some sh)
    with a show ?thesis
      by (auto simp: Favorites_createItem_def Favorites_forEach_eq children_def Let_def
            split: if_splits)
  qed
  have mainmenu: "children r = concat (map node_items (get_root_directory h))"
    if a: "MainMenu_createItem h name icon = Inr r" for r
    using a
    by (auto simp: MainMenu_createItem_eq children_def split: option.splits if_splits)
  from bookmarks running recent frequent favorites mainmenu show ?thesis
    by (intro conjI allI impI)
qed

text \<open>
  On the example host: the nine files, the two windows in the order of the
  application's list, the two existing recent files, the one non-null application, the
  one favorite that is found, and the two items of the root directory.
\<close>

theorem children_in_host_order_witness:
  "Bookmarks_createItem example_host (JStr ''Menu'') (JStr ''folder'') =
     Inr (MenuItem (JStr ''Menu'') (JStr ''folder'') None
            (Some (concat (map (pushFile [])
               [example_directory ''/home/user'' ''user'',
                example_directory ''/home/user/Shared'' ''Shared'',
                example_directory ''/home/user/Shared'' ''Shared'',
                example_directory ''/home/user/Shared'' ''Shared'',
                example_directory ''/home/user/Shared'' ''Shared'',
                example_directory ''/home/user/Shared'' ''Shared'',
                missing_directory ''/home/user/Templates'' ''Templates'',
                example_directory ''/home/user/Shared'' ''Shared'',
                example_directory ''/home/user/Shared'' ''Shared''])))) \<and>
   (\<exists>files. map (new_for_path example_host) (bookmark_paths example_host) = map Inr files \<and>
      map activate (children (MenuItem (JStr ''Menu'') (JStr ''folder'') None
            (Some (concat (map (pushFile [])
               [example_directory ''/home/user'' ''user'',
                example_directory ''/home/user/Shared'' ''Shared'',
                example_directory ''/home/user/Shared'' ''Shared'',
                example_directory ''/home/user/Shared'' ''Shared'',
                example_directory ''/home/user/Shared'' ''Shared'',
                example_directory ''/home/user/Shared'' ''Shared'',
                missing_directory ''/home/user/Templates'' ''Templates'',
                example_directory ''/home/user/Shared'' ''Shared'',
                example_directory ''/home/user/Shared'' ''Shared'']))))) =
        map (\<lambda>file. Some (Bookmarks_activate file)) files) \<and>
   RunningApps_createItem example_host (JStr ''Menu'') (JStr ''folder'') =
     Inr (MenuItem (JStr ''Menu'') (JStr ''folder'') None (Some (window_items example_app))) \<and>
   map activate (children (MenuItem (JStr ''Menu'') (JStr ''folder'') None
                             (Some (window_items example_app)))) =
     [Some (RunningApps_activate (example_window ''Home'')),
      Some (RunningApps_activate (example_window ''Music''))] \<and>
   RecentFiles_createItem example_host (JStr ''Menu'') (JStr ''folder'') 3 =
     Inr (MenuItem (JStr ''Menu'') (JStr ''folder'') None
            (Some [recent_item (example_recent ''a.txt'' True),
                   recent_item (example_recent ''c.txt'' True)])) \<and>
   children (MenuItem (JStr ''Menu'') (JStr ''folder'') None
               (Some [recent_item (example_recent ''a.txt'' True),
                      recent_item (example_recent ''c.txt'' True)])) =
     map recent_item (filter recent_exists (slice0
       [example_recent ''a.txt'' True, example_recent ''b.txt'' False,
        example_recent ''c.txt'' True] 3)) \<and>
   FrequentlyUsed_createItem example_host (JStr ''Menu'') (JStr ''folder'') 2 =
     Inr (MenuItem (JStr ''Menu'') (JStr ''folder'') None (Some [frequent_item example_app])) \<and>
   children (MenuItem (JStr ''Menu'') (JStr ''folder'') None (Some [frequent_item example_app])) =
     map frequent_item (non_null (slice0 [Some example_app, None] 2)) \<and>
   Favorites_createItem example_host (JStr ''Menu'') (JStr ''folder'') =
     Inr (MenuItem (JStr ''Menu'') (JStr ''folder'') None (Some [favorite_item example_app])) \<and>
   children (MenuItem (JStr ''Menu'') (JStr ''folder'') None (Some [favorite_item example_app])) =
     map favorite_item (non_null [Some example_app, None]) \<and>
   MainMenu_createItem example_host (JStr ''Menu'') (JStr ''folder'') =
     Inr (MenuItem (JStr ''Menu'') (JStr ''folder'') None
            (Some [MenuItem (JStr ''Files'') (JStr ''system-file-manager'')
                     (Some (MainMenu_activate example_appinfo)) None,
                   MenuItem (JStr ''Tools'') (JStr ''applications-utilities'') None
                     (Some [MenuItem (JStr ''Tool'') (JStr ''missing-image'')
                              (Some (MainMenu_activate example_tool)) None])])) \<and>
   children (MenuItem (JStr ''Menu'') (JStr ''folder'') None
            (Some [MenuItem (JStr ''Files'') (JStr ''system-file-manager'')
                     (Some (MainMenu_activate example_appinfo)) None,
                   MenuItem (JStr ''Tools'') (JStr ''applications-utilities'') None
                     (Some [MenuItem (JStr ''Tool'') (JStr ''missing-image'')
                              (Some (MainMenu_activate example_tool)) None])])) =
     concat (map node_items (get_root_directory example_host))"
proof -
  note order2 = children_in_host_order [of example_host "JStr ''Menu''" "JStr ''folder''" 2]
  note order3 = children_in_host_order [of example_host "JStr ''Menu''" "JStr ''folder''" 3]
  note b = example_Bookmarks [of "JStr ''Menu''" "JStr ''folder''"]
  note ra = example_RunningApps [of "JStr ''Menu''" "JStr ''folder''"]
  note rf = example_RecentFiles_3 [of "JStr ''Menu''" "JStr ''folder''"]
  note fu = example_FrequentlyUsed_2 [of "JStr ''Menu''" "JStr ''folder''"]
  note fa = example_Favorites [of "JStr ''Menu''" "JStr ''folder''"]
  note mm = example_MainMenu [of "JStr ''Menu''" "JStr ''folder''"]
  have sh: "Shell example_host = Some example_shell"
    by (simp add: example_host_def)
  from order2 b
  have c1: "\<exists>files. map (new_for_path example_host) (bookmark_paths example_host) = map Inr files \<and>
      map activate (children (MenuItem (JStr ''Menu'') (JStr ''folder'') None
            (Some (concat (map (pushFile [])
               [example_directory ''/home/user'' ''user'',
                example_directory ''/home/user/Shared'' ''Shared'',
                example_directory ''/home/user/Shared'' ''Shared'',
                example_directory ''/home/user/Shared'' ''Shared'',
                example_directory ''/home/user/Shared'' ''Shared'',
                example_directory ''/home/user/Shared'' ''Shared'',
                missing_directory ''/home/user/Templates'' ''Templates'',
                example_directory ''/home/user/Shared'' ''Shared'',
                example_directory ''/home/user/Shared'' ''Shared'']))))) =
        map (\<lambda>file. Some (Bookmarks_activate file)) files"
    by blast
  from order2 ra sh
  have "map activate (children (MenuItem (JStr ''Menu'') (JStr ''folder'') None
                             (Some (window_items example_app)))) =
          map (\<lambda>window. Some (RunningApps_activate window))
            (concat (map app_get_windows (get_running example_shell)))"
    by auto
  then have c2: "map activate (children (MenuItem (JStr ''Menu'') (JStr ''folder'') None
                             (Some (window_items example_app)))) =
     [Some (RunningApps_activate (example_window ''Home'')),
      Some (RunningApps_activate (example_window ''Music''))]"
    by (simp add: example_shell_def example_app_def)
  from order3 rf
  have "children (MenuItem (JStr ''Menu'') (JStr ''folder'') None
               (Some [recent_item (example_recent ''a.txt'' True),
                      recent_item (example_recent ''c.txt'' True)])) =
     map recent_item (filter recent_exists (slice0 (recent_get_items example_host) 3))"
    by blast
  then have c3: "children (MenuItem (JStr ''Menu'') (JStr ''folder'') None
               (Some [recent_item (example_recent ''a.txt'' True),
                      recent_item (example_recent ''c.txt'' True)])) =
     map recent_item (filter recent_exists (slice0
       [example_recent ''a.txt'' True, example_recent ''b.txt'' False,
        example_recent ''c.txt'' True] 3))"
    by (simp add: example_host_def)
  from order2 fu sh
  have "children (MenuItem (JStr ''Menu'') (JStr ''folder'') None (Some [frequent_item example_app])) =
          map frequent_item (non_null (slice0 (get_most_used example_shell) 2))"
    by auto
  then have c4: "children (MenuItem (JStr ''Menu'') (JStr ''folder'') None (Some [frequent_item example_app])) =
     map frequent_item (non_null (slice0 [Some example_app, None] 2))"
    by (simp add: example_shell_def)
  from order2 fa sh
  have "children (MenuItem (JStr ''Menu'') (JStr ''folder'') None (Some [favorite_item example_app])) =
          map favorite_item (non_null (map (lookup_app example_shell) (favorite_apps example_host)))"
    by auto
  then have c5: "children (MenuItem (JStr ''Menu'') (JStr ''folder'') None (Some [favorite_item example_app])) =
     map favorite_item (non_null [Some example_app, None])"
    by (simp add: example_shell_def example_host_def)
  from order2 mm
  have c6: "children (MenuItem (JStr ''Menu'') (JStr ''folder'') None
            (Some [MenuItem (JStr ''Files'') (JStr ''system-file-manager'')
                     (Some (MainMenu_activate example_appinfo)) None,
                   MenuItem (JStr ''Tools'') (JStr ''applications-utilities'') None
                     (Some [MenuItem (JStr ''Tool'') (JStr ''missing-image'')
                              (Some (MainMenu_activate example_tool)) None])])) =
     concat (map node_items (get_root_directory example_host))"
    by blast
  from b c1 ra c2 rf c3 fu c4 fa c5 mm c6 show ?thesis
    by (intro conjI)
qed

section \<open>Filtering of host entries\<close>

text \<open>
  Claim C9. A child of \<^verbatim>\<open>RecentFiles\<close> is built from a recent entry of the host
  that exists; a child of \<^verbatim>\<open>FrequentlyUsed\<close> from a non-null application of the
  host's list; a child of \<^verbatim>\<open>Favorites\<close> from a name that \<^verbatim>\<open>lookup_app\<close>
  resolves. A submenu has no more children than the host's list has entries, and may
  have fewer. The entries that are left out are skipped silently: the loops run as on
  the list without them.
\<close>

theorem submenus_filter_entries:
  "(\<forall>r. RecentFiles_createItem h name icon maxNum = Inr r \<longrightarrow>
      length (children r) \<le> length (recent_get_items h) \<and>
      (\<forall>c \<in> set (children r).
         \<exists>recentFile \<in> set (recent_get_items h). recent_exists recentFile \<and> c = recent_item recentFile)) \<and>
   (\<forall>r. FrequentlyUsed_createItem h name icon maxNum = Inr r \<longrightarrow>
      (\<exists>sh. Shell h = Some sh \<and>
         length (children r) \<le> length (get_most_used sh) \<and>
         (\<forall>c \<in> set (children r).
            \<exists>app. Some app \<in> set (get_most_used sh) \<and> c = frequent_item app))) \<and>
   (\<forall>r. Favorites_createItem h name icon = Inr r \<longrightarrow>
      length (children r) \<le> length (favorite_apps h) \<and>
      (\<forall>c \<in> set (children r).
         \<exists>sh appName app. Shell h = Some sh \<and> appName \<in> set (favorite_apps h) \<and>
            lookup_app sh appName = Some app \<and> c = favorite_item app)) \<and>
   RecentFiles_forEach result_items recentFiles =
     RecentFiles_forEach result_items (filter recent_exists recentFiles) \<and>
   FrequentlyUsed_forEach result_items apps =
     FrequentlyUsed_forEach result_items (map Some (non_null apps)) \<and>
   (\<forall>sh. Shell h = Some sh \<longrightarrow>
      Favorites_forEach h result_items appNames =
        Favorites_forEach h result_items
          (filter (\<lambda>appName. lookup_app sh appName \<noteq> None) appNames))"
proof (intro conjI allI impI ballI)
  show "RecentFiles_forEach result_items recentFiles =
     RecentFiles_forEach result_items (filter recent_exists recentFiles)"
    by (simp add: RecentFiles_forEach_eq)
  show "FrequentlyUsed_forEach result_items apps =
     FrequentlyUsed_forEach result_items (map Some (non_null apps))"
    by (simp add: FrequentlyUsed_forEach_eq non_null_map_Some)
next
  fix sh
  assume sh: "Shell h = Some sh"
  have "non_null (map (lookup_app sh) (filter (\<lambda>appName. lookup_app sh appName \<noteq> None) appNames)) =
          non_null (map (lookup_app sh) appNames)"
    by (rule non_null_map_filter)
  then show "Favorites_forEach h result_items appNames =
        Favorites_forEach h result_items
          (filter (\<lambda>appName. lookup_app sh appName \<noteq> None) appNames)"
    by (simp only: Favorites_forEach_eq [OF sh])
next
  fix r
  assume "RecentFiles_createItem h name icon maxNum = Inr r"
  then have c: "children r = map recent_item (filter recent_exists (slice0 (recent_get_items h) maxNum))"
    by (auto simp: RecentFiles_createItem_def RecentFiles_forEach_eq children_def Let_def
          split: if_splits)
  have "length (filter recent_exists (slice0 (recent_get_items h) maxNum))
          \<le> length (slice0 (recent_get_items h) maxNum)"
    by (rule length_filter_le)
  also have "\<dots> \<le> length (recent_get_items h)"
    by (rule length_slice0)
  finally show "length (children r) \<le> length (recent_get_items h)"
    by (simp add: c)
  fix x
  assume "x \<in> set (children r)"
  with c set_slice0 [of "recent_get_items h" maxNum]
  show "\<exists>recentFile \<in> set (recent_get_items h). recent_exists recentFile \<and> x = recent_item recentFile"
    by auto
next
  fix r
  assume a: "FrequentlyUsed_createItem h name icon maxNum = Inr r"
  then obtain sh where sh: "Shell h = Some sh"
    by (auto simp: FrequentlyUsed_createItem_def split: option.splits)
  from a sh have c: "children r = map frequent_item (non_null (slice0 (get_most_used sh) maxNum))"
    by (auto simp: FrequentlyUsed_createItem_def FrequentlyUsed_forEach_eq children_def Let_def
          split: if_splits)
  have "length (non_null (slice0 (get_most_used sh) maxNum)) \<le> length (slice0 (get_most_used sh) maxNum)"
    by (rule length_non_null)
  also have "\<dots> \<le> length (get_most_used sh)"
    by (rule length_slice0)
  finally have l: "length (children r) \<le> length (get_most_used sh)"
    by (simp add: c)
  have "\<forall>x \<in> set (children r). \<exists>app. Some app \<in> set (get_most_used sh) \<and> x = frequent_item app"
    using c set_non_null_slice0 [of "get_most_used sh" maxNum]
    by (auto simp: set_non_null)
  with sh l show "\<exists>sh. Shell h = Some sh \<and>
         length (children r) \<le> length (get_most_used sh) \<and>
         (\<forall>c \<in> set (children r).
            \<exists>app. Some app \<in> set (get_most_used sh) \<and> c = frequent_item app)"
    by simp
next
  fix r
  assume a: "Favorites_createItem h name icon = Inr r"
  have "length (children r) \<le> length (favorite_apps h) \<and>
      (\<forall>c \<in> set (children r).
         \<exists>sh appName app. Shell h = Some sh \<and> appName \<in> set (favorite_apps h) \<and>
            lookup_app sh appName = Some app \<and> c = favorite_item app)"
  proof (cases "Shell h")
    case None
    with a show ?thesis
      by (auto simp: Favorites_createItem_def Favorites_forEach_no_Shell children_def Let_def
            split: if_splits)
  next
    case (Some sh)
    with a have c: "children r = map favorite_item (non_null (map (lookup_app sh) (favorite_apps h)))"
      by (auto simp: Favorites_createItem_def Favorites_forEach_eq children_def Let_def
            split: if_splits)
    have "length (non_null (map (lookup_app sh) (favorite_apps h))) \<le> length (favorite_apps h)"
      using length_non_null [of "map (lookup_app sh) (favorite_apps h)"] by simp
    with c Some show ?thesis
      by (auto simp: set_non_null) metis
  qed
  then show "length (children r) \<le> length (favorite_apps h)"
    and "\<And>c. c \<in> set (children r) \<Longrightarrow>
         \<exists>sh appName app. Shell h = Some sh \<and> appName \<in> set (favorite_apps h) \<and>
            lookup_app sh appName = Some app \<and> c = favorite_item app"
    by auto
qed

text \<open>
  On the example host: two of three recent files, one of two most used entries, one of
  two favorites.
\<close>

theorem submenus_filter_entries_witness:
  "RecentFiles_createItem example_host (JStr ''Menu'') (JStr ''folder'') 3 =
     Inr (MenuItem (JStr ''Menu'') (JStr ''folder'') None
            (Some [recent_item (example_recent ''a.txt'' True),
                   recent_item (example_recent ''c.txt'' True)])) \<and>
   length (recent_get_items example_host) = 3 \<and>
   (\<exists>recentFile. recentFile \<in> set (recent_get_items example_host) \<and> recent_exists recentFile \<and>
      recent_item (example_recent ''c.txt'' True) = recent_item recentFile) \<and>
   FrequentlyUsed_createItem example_host (JStr ''Menu'') (JStr ''folder'') 2 =
     Inr (MenuItem (JStr ''Menu'') (JStr ''folder'') None (Some [frequent_item example_app])) \<and>
   get_most_used example_shell = [Some example_app, None] \<and>
   Favorites_createItem example_host (JStr ''Menu'') (JStr ''folder'') =
     Inr (MenuItem (JStr ''Menu'') (JStr ''folder'') None (Some [favorite_item example_app])) \<and>
   favorite_apps example_host = [''files.desktop'', ''gone.desktop''] \<and>
   (\<exists>appName app. appName \<in> set (favorite_apps example_host) \<and>
      lookup_app example_shell appName = Some app \<and>
      favorite_item example_app = favorite_item app)"
proof -
  note filtered = submenus_filter_entries [of example_host "JStr ''Menu''" "JStr ''folder''" _ "[]" "[]" "[]" "[]"]
  have sh: "Shell example_host = Some example_shell"
    by (simp add: example_host_def)
  from filtered [of 3] example_RecentFiles_3 [of "JStr ''Menu''" "JStr ''folder''"]
  have "\<forall>c \<in> set (children (MenuItem (JStr ''Menu'') (JStr ''folder'') None
            (Some [recent_item (example_recent ''a.txt'' True),
                   recent_item (example_recent ''c.txt'' True)]))).
          \<exists>recentFile \<in> set (recent_get_items example_host).
            recent_exists recentFile \<and> c = recent_item recentFile"
    by blast
  then have r: "\<exists>recentFile. recentFile \<in> set (recent_get_items example_host) \<and>
      recent_exists recentFile \<and>
      recent_item (example_recent ''c.txt'' True) = recent_item recentFile"
    by (simp add: children_def) blast
  from filtered [of 3] example_Favorites [of "JStr ''Menu''" "JStr ''folder''"]
  have "\<forall>c \<in> set (children (MenuItem (JStr ''Menu'') (JStr ''folder'') None
            (Some [favorite_item example_app]))).
          \<exists>sh appName app. Shell example_host = Some sh \<and>
            appName \<in> set (favorite_apps example_host) \<and>
            lookup_app sh appName = Some app \<and> c = favorite_item app"
    by blast
  with sh have v: "\<exists>appName app. appName \<in> set (favorite_apps example_host) \<and>
      lookup_app example_shell appName = Some app \<and>
      favorite_item example_app = favorite_item app"
    by (simp add: children_def)
  have "length (recent_get_items example_host) = 3"
    and "get_most_used example_shell = [Some example_app, None]"
    and "favorite_apps example_host = [''files.desktop'', ''gone.desktop'']"
    by (simp_all add: example_host_def example_shell_def)
  with r v example_RecentFiles_3 example_FrequentlyUsed_2 example_Favorites show ?thesis
    by simp
qed

section \<open>Fallbacks for missing metadata\<close>




end
